theory Spec2Isabelle
  imports Complex_Main "HOL-Library.Word"
begin

section \<open>JavaScript values used by the component\<close>

text \<open>
  The model follows \<^verbatim>\<open>src/app/funds/FundsManagement.tsx\<close>. A JavaScript string is a
  sequence of 16-bit code units; the empty string is the only falsy one. \<open>js\<close> writes an
  ASCII literal of the source as such a sequence.
\<close>

type_synonym jsstring = "16 word list"

definition js :: "string \<Rightarrow> jsstring" where
  "js cs = map of_char cs"

text \<open>
  A Number, as far as the component observes one. \<open>Finite v\<close> stands for the binary64
  value nearest to the rational \<open>v\<close>; the two zeros are both \<open>Finite 0\<close> (the component
  only compares with zero and serialises the value).
\<close>

datatype Number = NaN | PosInfinity | NegInfinity | Finite rat

text \<open>The comparison \<^verbatim>\<open>x <= 0\<close>: false whenever \<open>x\<close> is NaN.\<close>

fun le_zero :: "Number \<Rightarrow> bool" where
  "le_zero NaN = False"
| "le_zero PosInfinity = False"
| "le_zero NegInfinity = True"
| "le_zero (Finite v) = (v \<le> 0)"

text \<open>A template literal prints an integer Number such as \<^verbatim>\<open>response.status\<close> in decimal.\<close>

fun numberToString :: "nat \<Rightarrow> jsstring" where
  "numberToString n =
     (if n < 10 then [of_nat (48 + n)]
      else numberToString (n div 10) @ [of_nat (48 + n mod 10)])"

declare numberToString.simps [simp del]

subsection \<open>The builtin parseFloat\<close>

text \<open>
  \<^verbatim>\<open>parseFloat\<close> of ECMAScript: leading white space is dropped, then the longest prefix
  that is a StrDecimalLiteral (optional sign; \<^verbatim>\<open>Infinity\<close>, or digits with an optional
  fraction and an optional exponent) gives the value; with no such prefix the result is
  NaN. The mathematical value is rounded to binary64 (ties to even) at the two places
  where rounding changes what a comparison with zero sees: at most \<open>2^-1075\<close> in
  magnitude rounds to zero, \<open>2^1024 - 2^970\<close> or more to an infinity.
\<close>

definition isWhiteSpace :: "16 word \<Rightarrow> bool" where
  "isWhiteSpace c =
     (c \<in> set [0x9, 0xA, 0xB, 0xC, 0xD, 0x20, 0xA0, 0x1680, 0x2000, 0x2001, 0x2002,
                0x2003, 0x2004, 0x2005, 0x2006, 0x2007, 0x2008, 0x2009, 0x200A, 0x2028,
                0x2029, 0x202F, 0x205F, 0x3000, 0xFEFF])"

definition isDecimalDigit :: "16 word \<Rightarrow> bool" where
  "isDecimalDigit c = (0x30 \<le> c \<and> c \<le> 0x39)"

definition digitsMV :: "jsstring \<Rightarrow> nat" where
  "digitsMV ds = foldl (\<lambda>a c. 10 * a + (unat c - 48)) 0 ds"

definition pow10 :: "int \<Rightarrow> rat" where
  "pow10 e = (if 0 \<le> e then 10 ^ nat e else 1 / 10 ^ nat (- e))"

definition exponentPart :: "jsstring \<Rightarrow> int" where
  \<comment> \<open>The value of an ExponentPart at the head of \<open>r\<close> (\<open>e\<close> or \<open>E\<close>, an optional sign,
      digits), and 0 when there is none.\<close>
  "exponentPart r =
     (if take 1 r = [0x65] \<or> take 1 r = [0x45] then
        (let r1 = drop 1 r;
             neg = (take 1 r1 = [0x2D]);
             ds = takeWhile isDecimalDigit
                    (if neg \<or> take 1 r1 = [0x2B] then drop 1 r1 else r1)
         in if neg then - int (digitsMV ds) else int (digitsMV ds))
      else 0)"

datatype literal = NoLiteral | InfinityLiteral | DecimalLiteral rat

definition unsignedLiteral :: "jsstring \<Rightarrow> literal" where
  \<comment> \<open>The longest prefix that is a StrUnsignedDecimalLiteral, by its mathematical value.\<close>
  "unsignedLiteral s =
     (if take 8 s = js ''Infinity'' then InfinityLiteral
      else
        (let ip = takeWhile isDecimalDigit s;
             r = dropWhile isDecimalDigit s;
             dot = (take 1 r = [0x2E]);
             fp = (if dot then takeWhile isDecimalDigit (drop 1 r) else []);
             r2 = (if dot then dropWhile isDecimalDigit (drop 1 r) else r)
         in if ip = [] \<and> fp = [] then NoLiteral
            else DecimalLiteral
                   (of_nat (digitsMV (ip @ fp)) * pow10 (exponentPart r2 - int (length fp)))))"

definition roundMV :: "bool \<Rightarrow> rat \<Rightarrow> Number" where
  "roundMV neg v =
     (if v \<le> 1 / 2 ^ 1075 then Finite 0
      else if 2 ^ 1024 - 2 ^ 970 \<le> v then (if neg then NegInfinity else PosInfinity)
      else Finite (if neg then - v else v))"

definition parseFloat :: "jsstring \<Rightarrow> Number" where
  "parseFloat s =
     (let t = dropWhile isWhiteSpace s;
          neg = (take 1 t = [0x2D]);
          u = (if neg \<or> take 1 t = [0x2B] then drop 1 t else t)
      in case unsignedLiteral u of
           NoLiteral \<Rightarrow> NaN
         | InfinityLiteral \<Rightarrow> (if neg then NegInfinity else PosInfinity)
         | DecimalLiteral v \<Rightarrow> roundMV neg v)"

section \<open>Data model\<close>

text \<open>
  The interfaces of the source, an optional field as an \<open>option\<close>. Field names that two
  interfaces share carry a prime in the second one (\<open>balance'\<close>, \<open>success'\<close>), and so do
  \<open>type'\<close> and \<open>method'\<close>.
\<close>

record FundsData =
  type' :: "jsstring option"
  email :: "jsstring option"
  balance :: "Number option"

datatype PaymentMode = NB

record DepositRequest =
  amount :: Number
  mode :: PaymentMode

record DepositData =
  url :: "jsstring option"

record DepositResponse =
  success' :: "bool option"
  message :: "jsstring option"
  balance' :: "Number option"
  data :: "DepositData option"

text \<open>The seven \<^verbatim>\<open>useState\<close> cells of the component.\<close>

record state =
  funds :: "FundsData option"
  depositAmount :: jsstring
  depositMode :: PaymentMode
  loading :: bool
  error :: jsstring
  success :: jsstring
  authToken :: jsstring

definition initial :: state where
  "initial = \<lparr>funds = None, depositAmount = [], depositMode = NB, loading = False,
              error = [], success = [], authToken = []\<rparr>"

subsection \<open>The network and the other effects\<close>

text \<open>
  What a \<^verbatim>\<open>catch\<close> receives: an \<^verbatim>\<open>Error\<close> with its message, or any other value.
  A \<^verbatim>\<open>Response\<close> is read through \<^verbatim>\<open>ok\<close>, \<^verbatim>\<open>status\<close> and \<^verbatim>\<open>json()\<close>, which resolves to
  the parsed body or rejects. The awaited \<^verbatim>\<open>fetch\<close> itself rejects (\<open>Inl\<close>) or resolves to
  a response (\<open>Inr\<close>). The body of a request is kept as the object handed to
  \<^verbatim>\<open>JSON.stringify\<close>.
\<close>

datatype thrown = Error jsstring | NonError

record 'a Response =
  ok :: bool
  status :: nat
  json :: "thrown + 'a"

record RequestInit =
  method' :: jsstring
  headers :: "(jsstring \<times> jsstring) list"
  body :: "DepositRequest option"

text \<open>
  The two timer callbacks of \<^verbatim>\<open>depositFunds\<close>, with what their closures capture: the
  redirect URL of the response (lines 115-119), and the \<^verbatim>\<open>fetchFunds\<close> of the render
  that \<^verbatim>\<open>depositFunds\<close> belongs to, that is the state values of that render
  (lines 126-129).
\<close>

datatype callback = OpenGateway jsstring | RefreshFunds state

datatype effect =
    Fetch jsstring RequestInit
  | SetTimeout callback nat
  | WindowOpen jsstring jsstring
  | ConsoleError jsstring thrown

section \<open>The operations\<close>

text \<open>
  A function of the component reads the state values of the render that created it
  (\<open>env\<close>) and writes through the setters into the current state (\<open>s\<close>). A click runs
  the function of the current render, so there \<open>env = s\<close>. An \<^verbatim>\<open>async\<close> function runs
  up to its first \<^verbatim>\<open>await\<close> when invoked; the rest runs when the request settles, on
  the state of that moment. No setter is called between \<^verbatim>\<open>await fetch\<close> and
  \<^verbatim>\<open>await response.json()\<close>, so the two are one resumption.
\<close>

definition BASE_URL :: jsstring where
  "BASE_URL = js ''http://13.202.238.76:3000/api/v1''"

definition requestHeaders :: "jsstring \<Rightarrow> (jsstring \<times> jsstring) list" where
  "requestHeaders token =
     [(js ''Content-Type'', js ''application/json''),
      (js ''Authorization'', js ''Bearer '' @ token)]"

definition errorMessage :: "thrown \<Rightarrow> jsstring" where
  \<comment> \<open>\<^verbatim>\<open>err instanceof Error ? err.message : 'Unknown error occurred'\<close>\<close>
  "errorMessage err = (case err of Error m \<Rightarrow> m | NonError \<Rightarrow> js ''Unknown error occurred'')"

definition settled :: "thrown + 'a Response \<Rightarrow> thrown + 'a" where
  \<comment> \<open>Lines 50-62 and 95-108: what the \<^verbatim>\<open>try\<close> block holds after its awaits, the parsed
      body or the value thrown.\<close>
  "settled r =
     (case r of
        Inl err \<Rightarrow> Inl err
      | Inr response \<Rightarrow>
          if \<not> ok response
          then Inl (Error (js ''HTTP error! status: '' @ numberToString (status response)))
          else json response)"

definition fetchFunds :: "state \<Rightarrow> state \<Rightarrow> state \<times> effect list" where
  \<comment> \<open>Lines 41-56, up to the awaited request.\<close>
  "fetchFunds env s =
     (if authToken env = [] then
        (s\<lparr>error := js ''Please enter your Bearer token first''\<rparr>, [])
      else
        (s\<lparr>loading := True, error := []\<rparr>,
         [Fetch (BASE_URL @ js ''/funds'')
            \<lparr>method' = js ''GET'', headers = requestHeaders (authToken env), body = None\<rparr>]))"

definition fetchFunds_resume :: "thrown + FundsData Response \<Rightarrow> state \<Rightarrow> state \<times> effect list" where
  \<comment> \<open>Lines 58-70, once the request has settled.\<close>
  "fetchFunds_resume r s =
     (case settled r of
        Inr d \<Rightarrow> (s\<lparr>funds := Some d, loading := False\<rparr>, [])
      | Inl err \<Rightarrow>
          (s\<lparr>error := js ''Failed to fetch funds: '' @ errorMessage err, loading := False\<rparr>,
           [ConsoleError (js ''Error fetching funds:'') err]))"

definition depositFunds :: "state \<Rightarrow> state \<Rightarrow> state \<times> effect list" where
  \<comment> \<open>Lines 74-102, up to the awaited request.\<close>
  "depositFunds env s =
     (if authToken env = [] then
        (s\<lparr>error := js ''Please enter your Bearer token first''\<rparr>, [])
      else if depositAmount env = [] \<or> le_zero (parseFloat (depositAmount env)) then
        (s\<lparr>error := js ''Please enter a valid amount''\<rparr>, [])
      else
        (s\<lparr>loading := True, error := [], success := []\<rparr>,
         [Fetch (BASE_URL @ js ''/funds/deposit'')
            \<lparr>method' = js ''POST'', headers = requestHeaders (authToken env),
             body = Some \<lparr>amount = parseFloat (depositAmount env), mode = depositMode env\<rparr>\<rparr>]))"

definition optionalUrl :: "DepositResponse \<Rightarrow> jsstring option" where
  \<comment> \<open>\<^verbatim>\<open>responseData.data?.url\<close>\<close>
  "optionalUrl responseData = (case data responseData of None \<Rightarrow> None | Some d \<Rightarrow> url d)"

definition directDeposit :: "state \<Rightarrow> state \<Rightarrow> state \<times> effect list" where
  \<comment> \<open>Lines 121-129, the \<^verbatim>\<open>else\<close> branch; 0x20B9 is the rupee sign.\<close>
  "directDeposit env s =
     (s\<lparr>success := js ''Successfully deposited '' @ [0x20B9] @ depositAmount env,
        depositAmount := [], loading := False\<rparr>,
      [SetTimeout (RefreshFunds env) 2000])"

definition depositFunds_resume ::
  "state \<Rightarrow> thrown + DepositResponse Response \<Rightarrow> state \<Rightarrow> state \<times> effect list" where
  \<comment> \<open>Lines 104-138, once the request has settled. The URL is tested for truthiness:
      an absent \<^verbatim>\<open>data\<close>, an absent \<^verbatim>\<open>url\<close> and an empty \<^verbatim>\<open>url\<close> all take the
      \<^verbatim>\<open>else\<close> branch.\<close>
  "depositFunds_resume env r s =
     (case settled r of
        Inr responseData \<Rightarrow>
          (case optionalUrl responseData of
             Some u \<Rightarrow>
               if depositMode env = NB \<and> u \<noteq> [] then
                 (s\<lparr>success := js ''Redirecting to payment gateway...'', loading := False\<rparr>,
                  [SetTimeout (OpenGateway u) 1500])
               else directDeposit env s
           | None \<Rightarrow> directDeposit env s)
      | Inl err \<Rightarrow>
          (s\<lparr>error := js ''Failed to deposit funds: '' @ errorMessage err, loading := False\<rparr>,
           [ConsoleError (js ''Error depositing funds:'') err]))"

fun timeout :: "callback \<Rightarrow> state \<Rightarrow> state \<times> effect list" where
  \<comment> \<open>A timer callback, run on the state of the moment the timer fires.\<close>
  "timeout (OpenGateway u) s =
     (s\<lparr>success := js ''Payment gateway opened in new tab. Complete your payment there.'',
        depositAmount := []\<rparr>,
      [WindowOpen u (js ''_blank'')])"
| "timeout (RefreshFunds env) s =
     (case fetchFunds env s of (s', effects) \<Rightarrow> (s'\<lparr>success := []\<rparr>, effects))"

definition handleTokenChange :: "jsstring \<Rightarrow> state \<Rightarrow> state" where
  "handleTokenChange v s = s\<lparr>authToken := v\<rparr>"

definition handleAmountChange :: "jsstring \<Rightarrow> state \<Rightarrow> state" where
  "handleAmountChange v s = s\<lparr>depositAmount := v\<rparr>"

definition useEffect :: "jsstring option \<Rightarrow> state \<Rightarrow> state \<times> effect list" where
  \<comment> \<open>Lines 152-156, after a render: the effect runs on mount (\<open>None\<close>) and whenever
      \<^verbatim>\<open>authToken\<close> differs from its value at the previous render.\<close>
  "useEffect previous s =
     (if previous = Some (authToken s) then (s, [])
      else if authToken s \<noteq> [] then fetchFunds s s
      else (s, []))"

definition tokenInput :: "jsstring \<Rightarrow> state \<Rightarrow> state \<times> effect list" where
  \<comment> \<open>The user edits the token field: the handler, the render, its effect.\<close>
  "tokenInput v s = useEffect (Some (authToken s)) (handleTokenChange v s)"

section \<open>Scenarios and evaluation lemmas\<close>

text \<open>The states of the scenarios: a fresh component with a given token and amount.\<close>

definition session :: "string \<Rightarrow> string \<Rightarrow> state" where
  "session token amt = initial\<lparr>depositAmount := js amt, authToken := js token\<rparr>"

definition savings :: FundsData where
  "savings = \<lparr>type' = Some (js ''savings''), email = None, balance = Some (Finite 500)\<rparr>"


lemmas parseFloat_defs =
  parseFloat_def js_def isWhiteSpace_def unsignedLiteral_def isDecimalDigit_def
  digitsMV_def exponentPart_def pow10_def roundMV_def Let_def

lemma parseFloat_0: "parseFloat (js ''0'') = Finite 0"
  by (simp add: parseFloat_defs)


lemma parseFloat_minus: "parseFloat (js ''-5'') = Finite (- 5)"
  by (simp add: parseFloat_defs)

lemma parseFloat_100: "parseFloat (js ''100'') = Finite 100"
  by (simp add: parseFloat_defs)

lemma parseFloat_50: "parseFloat (js ''50'') = Finite 50"
  by (simp add: parseFloat_defs)

lemma PaymentMode_NB: "(m::PaymentMode) = NB"
  by (cases m) simp

lemma js_Nil [simp]: "js [] = []"
  by (simp add: js_def)

declare timeout.simps [simp del]

lemma settled_ok: "ok response \<Longrightarrow> settled (Inr response) = json response"
  by (simp add: settled_def)

text \<open>
  The amount guard of line 80 lets NaN through: a non-empty amount that \<^verbatim>\<open>parseFloat\<close>
  maps to NaN is sent, as the amount NaN.
\<close>

lemma nan_amount_is_sent:
  assumes "authToken env \<noteq> []" and "depositAmount env \<noteq> []"
    and "parseFloat (depositAmount env) = NaN"
  shows "depositFunds env s =
           (s\<lparr>loading := True, error := [], success := []\<rparr>,
            [Fetch (BASE_URL @ js ''/funds/deposit'')
               \<lparr>method' = js ''POST'', headers = requestHeaders (authToken env),
                body = Some \<lparr>amount = NaN, mode = depositMode env\<rparr>\<rparr>])"
  using assms by (simp add: depositFunds_def)

section \<open>Preconditions\<close>




text \<open>
  The amount guard of line 80, \<^verbatim>\<open>!depositAmount || parseFloat(depositAmount) <= 0\<close>,
  reached with a non-empty token: an amount that is the empty string or that
  \<^verbatim>\<open>parseFloat\<close> maps to a Number at most zero issues no request and sets the error
  message to "Please enter a valid amount".
\<close>

lemma amount_guard_refuses:
  assumes "authToken env \<noteq> []"
    and "depositAmount env = [] \<or> le_zero (parseFloat (depositAmount env))"
  shows "depositFunds env s = (s\<lparr>error := js ''Please enter a valid amount''\<rparr>, [])"
  using assms by (auto simp add: depositFunds_def)

lemma amount_guard_refuses_zero_and_negative:
  "depositFunds (session ''abc'' ''0'') (session ''abc'' ''0'')
     = ((session ''abc'' ''0'')\<lparr>error := js ''Please enter a valid amount''\<rparr>, [])
   \<and> depositFunds (session ''abc'' ''-5'') (session ''abc'' ''-5'')
     = ((session ''abc'' ''-5'')\<lparr>error := js ''Please enter a valid amount''\<rparr>, [])
   \<and> depositFunds (session ''abc'' []) (session ''abc'' [])
     = ((session ''abc'' [])\<lparr>error := js ''Please enter a valid amount''\<rparr>, [])"
  by (simp add: session_def initial_def depositFunds_def parseFloat_0 parseFloat_minus)
    (simp add: js_def)


section \<open>The effect on the token\<close>

text \<open>
  C2, as the code has it. The effect is keyed on the token value: an edit of the token
  field triggers a Balance Fetch exactly when the new value is non-empty and differs from
  the old one, whether the old one was empty or not. On mount the token is empty and
  nothing is fetched.
\<close>

theorem token_effect:
  "authToken (fst (tokenInput v s)) = v
   \<and> snd (tokenInput v s) =
     (if v \<noteq> authToken s \<and> v \<noteq> []
      then [Fetch (BASE_URL @ js ''/funds'')
              \<lparr>method' = js ''GET'', headers = requestHeaders v, body = None\<rparr>]
      else [])
   \<and> useEffect None initial = (initial, [])"
  by (auto simp add: tokenInput_def useEffect_def handleTokenChange_def fetchFunds_def
      initial_def)

theorem token_effect_witness:
  "snd (tokenInput (js ''abc'') initial) =
     [Fetch (BASE_URL @ js ''/funds'')
        \<lparr>method' = js ''GET'', headers = requestHeaders (js ''abc''), body = None\<rparr>]
   \<and> snd (tokenInput [] (session ''abc'' [])) = []
   \<and> snd (tokenInput (js ''abc'') (session ''abc'' [])) = []"
  using token_effect [of "js ''abc''" initial] token_effect [of "[]" "session ''abc'' []"]
    token_effect [of "js ''abc''" "session ''abc'' []"]
  by (simp add: initial_def session_def js_def)

text \<open>
  The claim as the specification states it fails: a change of the token from "a" to
  "ab", both non-empty, triggers a fetch with the new token.
\<close>

theorem token_effect_counterexample:
  "authToken (session ''a'' []) \<noteq> [] \<and> js ''ab'' \<noteq> []
   \<and> snd (tokenInput (js ''ab'') (session ''a'' [])) =
       [Fetch (BASE_URL @ js ''/funds'')
          \<lparr>method' = js ''GET'', headers = requestHeaders (js ''ab''), body = None\<rparr>]"
  by (simp add: tokenInput_def useEffect_def handleTokenChange_def fetchFunds_def
      session_def initial_def js_def)

section \<open>Balance Fetch, once the request has settled\<close>

text \<open>
  C4. After a successful Fetch response (status ok, body parsed) the held snapshot is
  the parsed body itself, whatever was held before: each field of the snapshot is the
  field of the body, so a field absent from the body is absent from the snapshot.
\<close>

theorem fetch_success_replaces_snapshot:
  assumes "ok response" and "json response = Inr d"
  shows "fetchFunds_resume (Inr response) s = (s\<lparr>funds := Some d, loading := False\<rparr>, [])
       \<and> funds (fst (fetchFunds_resume (Inr response) s)) = Some d
       \<and> map_option type' (funds (fst (fetchFunds_resume (Inr response) s))) = Some (type' d)
       \<and> map_option email (funds (fst (fetchFunds_resume (Inr response) s))) = Some (email d)
       \<and> map_option balance (funds (fst (fetchFunds_resume (Inr response) s)))
           = Some (balance d)"
  using assms by (simp add: fetchFunds_resume_def settled_ok)

text \<open>
  Scenario C: the response has a type and a balance and no email, while the snapshot held
  before has an email; afterwards no email is held.
\<close>

theorem fetch_success_replaces_snapshot_witness:
  "ok \<lparr>ok = True, status = 200, json = Inr savings\<rparr>
   \<and> funds (fst (fetchFunds_resume (Inr \<lparr>ok = True, status = 200, json = Inr savings\<rparr>)
        ((session ''abc'' [])\<lparr>funds := Some \<lparr>type' = Some (js ''current''),
           email = Some (js ''a@b.c''), balance = Some (Finite 20)\<rparr>\<rparr>))) = Some savings
   \<and> map_option email
        (funds (fst (fetchFunds_resume (Inr \<lparr>ok = True, status = 200, json = Inr savings\<rparr>)
        ((session ''abc'' [])\<lparr>funds := Some \<lparr>type' = Some (js ''current''),
           email = Some (js ''a@b.c''), balance = Some (Finite 20)\<rparr>\<rparr>)))) = Some None"
  using fetch_success_replaces_snapshot
    [of "\<lparr>ok = True, status = 200, json = Inr savings\<rparr>" savings
        "(session ''abc'' [])\<lparr>funds := Some \<lparr>type' = Some (js ''current''),
           email = Some (js ''a@b.c''), balance = Some (Finite 20)\<rparr>\<rparr>"]
  by (simp add: savings_def)

text \<open>
  C8. A Fetch fails when the request is rejected, when the response status is not ok, or
  when the body does not parse. In each case the error message is "Failed to fetch
  funds: " followed by the detail (the message of the error, "Unknown error occurred"
  for a thrown value that is no Error, "HTTP error! status: " and the status for a
  response that is not ok); only the error message and the loading flag are written, so
  the snapshot held is untouched. The loading flag is cleared whatever the outcome.
\<close>

theorem fetch_failure:
  "fetchFunds_resume (Inl err) s =
     (s\<lparr>error := js ''Failed to fetch funds: '' @ errorMessage err, loading := False\<rparr>,
      [ConsoleError (js ''Error fetching funds:'') err])
   \<and> (\<not> ok response \<longrightarrow>
        fetchFunds_resume (Inr response) s =
          (s\<lparr>error := js ''Failed to fetch funds: '' @ js ''HTTP error! status: ''
                  @ numberToString (status response), loading := False\<rparr>,
           [ConsoleError (js ''Error fetching funds:'')
              (Error (js ''HTTP error! status: '' @ numberToString (status response)))]))
   \<and> (ok response \<and> json response = Inl err \<longrightarrow>
        fetchFunds_resume (Inr response) s =
          (s\<lparr>error := js ''Failed to fetch funds: '' @ errorMessage err, loading := False\<rparr>,
           [ConsoleError (js ''Error fetching funds:'') err]))
   \<and> (settled r = Inl err \<longrightarrow> funds (fst (fetchFunds_resume r s)) = funds s)
   \<and> loading (fst (fetchFunds_resume r s)) = False"
  by (simp add: fetchFunds_resume_def settled_def errorMessage_def split: sum.splits)

text \<open>A status 500 while the savings snapshot is held and loading.\<close>

theorem fetch_failure_witness:
  "\<not> ok \<lparr>ok = False, status = 500, json = Inr savings\<rparr>
   \<and> fetchFunds_resume (Inr \<lparr>ok = False, status = 500, json = Inr savings\<rparr>)
        ((session ''abc'' [])\<lparr>funds := Some savings, loading := True\<rparr>)
      = ((session ''abc'' [])\<lparr>funds := Some savings,
            error := js ''Failed to fetch funds: HTTP error! status: 500''\<rparr>,
         [ConsoleError (js ''Error fetching funds:'') (Error (js ''HTTP error! status: 500''))])
   \<and> fetchFunds_resume (Inl NonError)
        ((session ''abc'' [])\<lparr>funds := Some savings, loading := True\<rparr>)
      = ((session ''abc'' [])\<lparr>funds := Some savings,
            error := js ''Failed to fetch funds: Unknown error occurred''\<rparr>,
         [ConsoleError (js ''Error fetching funds:'') NonError])"
  using fetch_failure
    [of NonError "(session ''abc'' [])\<lparr>funds := Some savings, loading := True\<rparr>"
        "\<lparr>ok = False, status = 500, json = Inr savings\<rparr>"]
  by (simp add: session_def initial_def errorMessage_def js_def numberToString.simps)

text \<open>
  C10. No path of Fetch writes the success message: not the abort on an empty token,
  not the start of the request, not its success, not any of its failures.
\<close>

theorem fetch_keeps_success:
  "success (fst (fetchFunds env s)) = success s
   \<and> success (fst (fetchFunds_resume r s)) = success s"
  by (simp add: fetchFunds_def fetchFunds_resume_def split: sum.splits)

text \<open>
  With the notice of an opened gateway on display, a Fetch that fails with status 401
  leaves the notice in place beside its own error message.
\<close>

theorem fetch_keeps_success_witness:
  "success (fst (fetchFunds_resume (Inr \<lparr>ok = False, status = 401, json = Inl NonError\<rparr>)
     (fst (fetchFunds (session ''abc'' [])
        ((session ''abc'' [])\<lparr>success := js ''Payment gateway opened in new tab. Complete your payment there.''\<rparr>)))))
     = js ''Payment gateway opened in new tab. Complete your payment there.''
   \<and> error (fst (fetchFunds_resume (Inr \<lparr>ok = False, status = 401, json = Inl NonError\<rparr>)
     (fst (fetchFunds (session ''abc'' [])
        ((session ''abc'' [])\<lparr>success := js ''Payment gateway opened in new tab. Complete your payment there.''\<rparr>)))))
     = js ''Failed to fetch funds: HTTP error! status: 401''"
  using fetch_keeps_success
    [where r = "Inr \<lparr>ok = False, status = 401, json = Inl NonError\<rparr>"
       and s = "fst (fetchFunds (session ''abc'' [])
           ((session ''abc'' [])\<lparr>success := js ''Payment gateway opened in new tab. Complete your payment there.''\<rparr>))"]
    fetch_keeps_success
    [where env = "session ''abc'' []"
       and s = "(session ''abc'' [])\<lparr>success := js ''Payment gateway opened in new tab. Complete your payment there.''\<rparr>"]
  by (simp add: fetchFunds_def fetchFunds_resume_def settled_def errorMessage_def
      session_def initial_def js_def numberToString.simps)

section \<open>Deposit, once the request has settled\<close>

text \<open>
  C9. A Deposit that passed its preconditions fails when the request is rejected, when
  the response status is not ok, or when the body does not parse. In each case the error
  message is set, to "Failed to deposit funds: " followed by the detail, which is not the
  empty string; the loading flag is cleared, and the amount input keeps its value (only
  the error message and the loading flag are written).
\<close>

theorem deposit_failure:
  "depositFunds_resume env (Inl err) s =
     (s\<lparr>error := js ''Failed to deposit funds: '' @ errorMessage err, loading := False\<rparr>,
      [ConsoleError (js ''Error depositing funds:'') err])
   \<and> (\<not> ok response \<longrightarrow>
        depositFunds_resume env (Inr response) s =
          (s\<lparr>error := js ''Failed to deposit funds: '' @ js ''HTTP error! status: ''
                  @ numberToString (status response), loading := False\<rparr>,
           [ConsoleError (js ''Error depositing funds:'')
              (Error (js ''HTTP error! status: '' @ numberToString (status response)))]))
   \<and> (ok response \<and> json response = Inl err \<longrightarrow>
        depositFunds_resume env (Inr response) s =
          (s\<lparr>error := js ''Failed to deposit funds: '' @ errorMessage err, loading := False\<rparr>,
           [ConsoleError (js ''Error depositing funds:'') err]))
   \<and> (settled r = Inl err \<longrightarrow>
        error (fst (depositFunds_resume env r s)) \<noteq> []
        \<and> depositAmount (fst (depositFunds_resume env r s)) = depositAmount s
        \<and> loading (fst (depositFunds_resume env r s)) = False)"
  by (simp add: depositFunds_resume_def settled_def errorMessage_def js_def
      split: sum.splits)

text \<open>A rejected request and a status 503, for the amount "100" still in the input.\<close>

theorem deposit_failure_witness:
  "\<not> ok \<lparr>ok = False, status = 503, json = Inl NonError\<rparr>
   \<and> depositFunds_resume (session ''abc'' ''100'')
        (Inr \<lparr>ok = False, status = 503, json = Inl NonError\<rparr>)
        ((session ''abc'' ''100'')\<lparr>loading := True\<rparr>)
      = ((session ''abc'' ''100'')\<lparr>error := js ''Failed to deposit funds: HTTP error! status: 503''\<rparr>,
         [ConsoleError (js ''Error depositing funds:'') (Error (js ''HTTP error! status: 503''))])
   \<and> depositFunds_resume (session ''abc'' ''100'') (Inl (Error (js ''Failed to fetch'')))
        ((session ''abc'' ''100'')\<lparr>loading := True\<rparr>)
      = ((session ''abc'' ''100'')\<lparr>error := js ''Failed to deposit funds: Failed to fetch''\<rparr>,
         [ConsoleError (js ''Error depositing funds:'') (Error (js ''Failed to fetch''))])"
  using deposit_failure
    [of "session ''abc'' ''100''" "Error (js ''Failed to fetch'')"
        "(session ''abc'' ''100'')\<lparr>loading := True\<rparr>"
        "\<lparr>ok = False, status = 503, json = Inl NonError\<rparr>"]
  by (simp add: session_def initial_def errorMessage_def js_def numberToString.simps)

text \<open>
  C5. For a successful Deposit whose response carries a redirect URL, a non-empty
  string: when the response arrives the success message becomes the interim notice and a
  timer of 1500 milliseconds is set, the amount input untouched; when the timer fires the
  URL is opened in a new browsing context, the success message becomes the notice of the
  opened gateway, and the amount input is cleared. The two notices differ. Run without
  interruption from the invocation on, the success message is empty, then the interim
  notice, then the notice of the opened gateway, and the amount input keeps its value
  until the timer fires.
\<close>

theorem gateway_redirect:
  assumes "authToken env \<noteq> []"
    and "depositAmount env \<noteq> []" and "\<not> le_zero (parseFloat (depositAmount env))"
    and "ok response" and "json response = Inr responseData"
    and "optionalUrl responseData = Some u" and "u \<noteq> []"
  shows "depositFunds_resume env (Inr response) sa =
           (sa\<lparr>success := js ''Redirecting to payment gateway...'', loading := False\<rparr>,
            [SetTimeout (OpenGateway u) 1500])
       \<and> timeout (OpenGateway u) st =
           (st\<lparr>success := js ''Payment gateway opened in new tab. Complete your payment there.'',
               depositAmount := []\<rparr>,
            [WindowOpen u (js ''_blank'')])
       \<and> js ''Redirecting to payment gateway...''
           \<noteq> js ''Payment gateway opened in new tab. Complete your payment there.''
       \<and> (let s1 = fst (depositFunds env s0);
               s2 = fst (depositFunds_resume env (Inr response) s1);
               s3 = fst (timeout (OpenGateway u) s2)
           in map success [s1, s2, s3] =
                [[], js ''Redirecting to payment gateway...'',
                 js ''Payment gateway opened in new tab. Complete your payment there.'']
            \<and> map depositAmount [s1, s2, s3] = [depositAmount s0, depositAmount s0, []])"
proof -
  have start: "fst (depositFunds env s0) = s0\<lparr>loading := True, error := [], success := []\<rparr>"
    using assms(1-3) by (simp add: depositFunds_def)
  have arrival: "depositFunds_resume env (Inr response) x =
      (x\<lparr>success := js ''Redirecting to payment gateway...'', loading := False\<rparr>,
       [SetTimeout (OpenGateway u) 1500])" for x
    using assms(4-7) by (simp add: depositFunds_resume_def settled_ok PaymentMode_NB)
  have notices: "js ''Redirecting to payment gateway...''
      \<noteq> js ''Payment gateway opened in new tab. Complete your payment there.''"
    by (simp add: js_def)
  from notices show ?thesis
    by (simp add: start arrival timeout.simps)
qed

text \<open>
  Scenario D: token "abc", amount "100", the response holds the URL
  "https://pay.example/x". The amount is still "100" after the response and empty after
  the timer.
\<close>

theorem gateway_redirect_witness:
  "authToken (session ''abc'' ''100'') \<noteq> []
   \<and> \<not> le_zero (parseFloat (depositAmount (session ''abc'' ''100'')))
   \<and> optionalUrl \<lparr>success' = None, message = None, balance' = None,
       data = Some \<lparr>url = Some (js ''https://pay.example/x'')\<rparr>\<rparr>
     = Some (js ''https://pay.example/x'')
   \<and> js ''https://pay.example/x'' \<noteq> []
   \<and> depositFunds_resume (session ''abc'' ''100'')
        (Inr \<lparr>ok = True, status = 200, json = Inr \<lparr>success' = None, message = None,
           balance' = None, data = Some \<lparr>url = Some (js ''https://pay.example/x'')\<rparr>\<rparr>\<rparr>)
        ((session ''abc'' ''100'')\<lparr>loading := True\<rparr>)
      = ((session ''abc'' ''100'')\<lparr>success := js ''Redirecting to payment gateway...''\<rparr>,
         [SetTimeout (OpenGateway (js ''https://pay.example/x'')) 1500])
   \<and> timeout (OpenGateway (js ''https://pay.example/x''))
        ((session ''abc'' ''100'')\<lparr>success := js ''Redirecting to payment gateway...''\<rparr>)
      = ((session ''abc'' [])\<lparr>success :=
            js ''Payment gateway opened in new tab. Complete your payment there.''\<rparr>,
         [WindowOpen (js ''https://pay.example/x'') (js ''_blank'')])"
proof -
  have token: "authToken (session ''abc'' ''100'') \<noteq> []"
    by (simp add: session_def js_def)
  have typed: "depositAmount (session ''abc'' ''100'') \<noteq> []"
    by (simp add: session_def js_def)
  have positive: "\<not> le_zero (parseFloat (depositAmount (session ''abc'' ''100'')))"
    by (simp add: session_def parseFloat_100)
  have present: "optionalUrl \<lparr>success' = None, message = None, balance' = None,
       data = Some \<lparr>url = Some (js ''https://pay.example/x'')\<rparr>\<rparr>
     = Some (js ''https://pay.example/x'')"
    by (simp add: optionalUrl_def)
  have nonempty: "js ''https://pay.example/x'' \<noteq> []"
    by (simp add: js_def)
  from gateway_redirect
    [where response = "\<lparr>ok = True, status = 200, json = Inr \<lparr>success' = None,
         message = None, balance' = None,
         data = Some \<lparr>url = Some (js ''https://pay.example/x'')\<rparr>\<rparr>\<rparr>"
       and sa = "(session ''abc'' ''100'')\<lparr>loading := True\<rparr>"
       and st = "(session ''abc'' ''100'')\<lparr>success := js ''Redirecting to payment gateway...''\<rparr>",
     OF token typed positive _ _ present nonempty]
    token positive present nonempty
  show ?thesis by (simp add: session_def initial_def)
qed

text \<open>
  C6. For a successful Deposit whose response carries no redirect URL (no \<^verbatim>\<open>data\<close>, no
  \<^verbatim>\<open>url\<close>, or an empty one): when the response arrives the success message becomes
  "Successfully deposited" with the rupee sign and the amount of the input as it was when
  the operation was invoked, the amount input is cleared, and a timer of 2000
  milliseconds is set. When the timer fires, Fetch is invoked with the token of that
  invocation, which passed the precondition, so its request is issued, and the success
  message is cleared. No outcome of that Fetch writes the success message. Run without
  interruption from the invocation on, the success message is empty, then the
  confirmation, then empty from the timer on, whatever the outcome of the Fetch; the
  amount input is empty from the arrival of the response on.
\<close>

theorem direct_deposit:
  assumes "authToken env \<noteq> []"
    and "depositAmount env \<noteq> []" and "\<not> le_zero (parseFloat (depositAmount env))"
    and "ok response" and "json response = Inr responseData"
    and "optionalUrl responseData = None \<or> optionalUrl responseData = Some []"
  shows "depositFunds_resume env (Inr response) sa =
           (sa\<lparr>success := js ''Successfully deposited '' @ [0x20B9] @ depositAmount env,
               depositAmount := [], loading := False\<rparr>,
            [SetTimeout (RefreshFunds env) 2000])
       \<and> timeout (RefreshFunds env) st =
           (st\<lparr>loading := True, error := [], success := []\<rparr>,
            [Fetch (BASE_URL @ js ''/funds'')
               \<lparr>method' = js ''GET'', headers = requestHeaders (authToken env), body = None\<rparr>])
       \<and> success (fst (fetchFunds_resume r sf)) = success sf
       \<and> (let s1 = fst (depositFunds env s0);
               s2 = fst (depositFunds_resume env (Inr response) s1);
               s3 = fst (timeout (RefreshFunds env) s2);
               s4 = fst (fetchFunds_resume r s3)
           in map success [s1, s2, s3, s4] =
                [[], js ''Successfully deposited '' @ [0x20B9] @ depositAmount env, [], []]
            \<and> map depositAmount [s1, s2, s3, s4] = [depositAmount s0, [], [], []])"
proof -
  have start: "fst (depositFunds env s0) = s0\<lparr>loading := True, error := [], success := []\<rparr>"
    using assms(1-3) by (simp add: depositFunds_def)
  have arrival: "depositFunds_resume env (Inr response) x =
      (x\<lparr>success := js ''Successfully deposited '' @ [0x20B9] @ depositAmount env,
         depositAmount := [], loading := False\<rparr>,
       [SetTimeout (RefreshFunds env) 2000])" for x
    using assms(4-6) by (auto simp add: depositFunds_resume_def settled_ok directDeposit_def)
  have timer: "timeout (RefreshFunds env) x =
      (x\<lparr>loading := True, error := [], success := []\<rparr>,
       [Fetch (BASE_URL @ js ''/funds'')
          \<lparr>method' = js ''GET'', headers = requestHeaders (authToken env), body = None\<rparr>])" for x
    using assms(1) by (simp add: fetchFunds_def timeout.simps)
  have outcome: "success (fst (fetchFunds_resume r x)) = success x
      \<and> depositAmount (fst (fetchFunds_resume r x)) = depositAmount x" for x
    by (simp add: fetchFunds_resume_def split: sum.splits)
  show ?thesis
    by (simp add: start arrival timer outcome)
qed

text \<open>
  Scenario E: token "abc", amount "50", the response is \<^verbatim>\<open>{success: true}\<close>. The token
  field has been emptied by the time the timer fires; the request still goes out, with
  the token "abc".
\<close>

theorem direct_deposit_witness:
  "authToken (session ''abc'' ''50'') \<noteq> []
   \<and> \<not> le_zero (parseFloat (depositAmount (session ''abc'' ''50'')))
   \<and> optionalUrl \<lparr>success' = Some True, message = None, balance' = None, data = None\<rparr> = None
   \<and> depositFunds_resume (session ''abc'' ''50'')
        (Inr \<lparr>ok = True, status = 200, json = Inr \<lparr>success' = Some True, message = None,
           balance' = None, data = None\<rparr>\<rparr>)
        ((session ''abc'' ''50'')\<lparr>loading := True\<rparr>)
      = ((session ''abc'' [])\<lparr>success := js ''Successfully deposited '' @ [0x20B9] @ js ''50''\<rparr>,
         [SetTimeout (RefreshFunds (session ''abc'' ''50'')) 2000])
   \<and> timeout (RefreshFunds (session ''abc'' ''50''))
        (initial\<lparr>success := js ''Successfully deposited '' @ [0x20B9] @ js ''50''\<rparr>)
      = (initial\<lparr>loading := True\<rparr>,
         [Fetch (BASE_URL @ js ''/funds'')
            \<lparr>method' = js ''GET'', headers = requestHeaders (js ''abc''), body = None\<rparr>])"
proof -
  have token: "authToken (session ''abc'' ''50'') \<noteq> []"
    by (simp add: session_def js_def)
  have typed: "depositAmount (session ''abc'' ''50'') \<noteq> []"
    by (simp add: session_def js_def)
  have positive: "\<not> le_zero (parseFloat (depositAmount (session ''abc'' ''50'')))"
    by (simp add: session_def parseFloat_50)
  have absent: "optionalUrl \<lparr>success' = Some True, message = None, balance' = None,
      data = None\<rparr> = None"
    by (simp add: optionalUrl_def)
  then have falsy: "optionalUrl \<lparr>success' = Some True, message = None, balance' = None,
      data = None\<rparr> = None
    \<or> optionalUrl \<lparr>success' = Some True, message = None, balance' = None,
      data = None\<rparr> = Some []" ..
  from direct_deposit
    [where response = "\<lparr>ok = True, status = 200, json = Inr \<lparr>success' = Some True,
         message = None, balance' = None, data = None\<rparr>\<rparr>"
       and sa = "(session ''abc'' ''50'')\<lparr>loading := True\<rparr>"
       and st = "initial\<lparr>success := js ''Successfully deposited '' @ [0x20B9] @ js ''50''\<rparr>",
     OF token typed positive _ _ falsy]
    token positive absent
  show ?thesis by (simp add: session_def initial_def)
qed

section \<open>The two messages\<close>

text \<open>
  C3, as the code has it. Starting a Deposit whose preconditions pass clears both
  messages. Starting a Fetch whose precondition passes clears the error message only and
  leaves the success message as it was. On completion, a failure of either operation
  writes the error message and leaves the success message as it was; a success of Deposit
  writes a non-empty success message and leaves the error message as it was; a success of
  Fetch writes neither.
\<close>

theorem operation_messages:
  fixes r :: "thrown + FundsData Response" and q :: "thrown + DepositResponse Response"
  assumes "authToken env \<noteq> []"
  shows "(depositAmount env \<noteq> [] \<and> \<not> le_zero (parseFloat (depositAmount env)) \<longrightarrow>
           error (fst (depositFunds env s)) = [] \<and> success (fst (depositFunds env s)) = [])
       \<and> error (fst (fetchFunds env s)) = []
       \<and> success (fst (fetchFunds env s)) = success s
       \<and> (settled r = Inl err \<longrightarrow>
           error (fst (fetchFunds_resume r s)) = js ''Failed to fetch funds: '' @ errorMessage err
           \<and> success (fst (fetchFunds_resume r s)) = success s)
       \<and> (settled r = Inr d \<longrightarrow>
           error (fst (fetchFunds_resume r s)) = error s
           \<and> success (fst (fetchFunds_resume r s)) = success s)
       \<and> (settled q = Inl err \<longrightarrow>
           error (fst (depositFunds_resume env q s))
             = js ''Failed to deposit funds: '' @ errorMessage err
           \<and> success (fst (depositFunds_resume env q s)) = success s)
       \<and> (settled q = Inr d' \<longrightarrow>
           error (fst (depositFunds_resume env q s)) = error s
           \<and> success (fst (depositFunds_resume env q s)) \<noteq> [])"
proof -
  have deposit_start: "depositAmount env \<noteq> [] \<and> \<not> le_zero (parseFloat (depositAmount env)) \<longrightarrow>
      error (fst (depositFunds env s)) = [] \<and> success (fst (depositFunds env s)) = []"
    using assms by (simp add: depositFunds_def)
  have fetch_start: "error (fst (fetchFunds env s)) = []
      \<and> success (fst (fetchFunds env s)) = success s"
    using assms by (simp add: fetchFunds_def)
  have fetch_end: "(settled r = Inl err \<longrightarrow>
        error (fst (fetchFunds_resume r s)) = js ''Failed to fetch funds: '' @ errorMessage err
        \<and> success (fst (fetchFunds_resume r s)) = success s)
      \<and> (settled r = Inr d \<longrightarrow>
        error (fst (fetchFunds_resume r s)) = error s
        \<and> success (fst (fetchFunds_resume r s)) = success s)"
    by (simp add: fetchFunds_resume_def)
  have deposit_fail: "settled q = Inl err \<longrightarrow>
      error (fst (depositFunds_resume env q s))
        = js ''Failed to deposit funds: '' @ errorMessage err
      \<and> success (fst (depositFunds_resume env q s)) = success s"
    by (simp add: depositFunds_resume_def)
  have deposit_ok: "settled q = Inr d' \<longrightarrow>
      error (fst (depositFunds_resume env q s)) = error s
      \<and> success (fst (depositFunds_resume env q s)) \<noteq> []"
    by (simp add: depositFunds_resume_def directDeposit_def js_def split: option.splits)
  from deposit_start fetch_start fetch_end deposit_fail deposit_ok show ?thesis
    by blast
qed

text \<open>
  Token "abc", amount "100", both messages on display: the start of a Deposit clears
  both, the start of a Fetch clears the error message only, and a Deposit answered with
  status 500 sets the error message alone.
\<close>

theorem operation_messages_witness:
  "authToken (session ''abc'' ''100'') \<noteq> []
   \<and> \<not> le_zero (parseFloat (depositAmount (session ''abc'' ''100'')))
   \<and> error (fst (depositFunds (session ''abc'' ''100'')
        ((session ''abc'' ''100'')\<lparr>error := js ''old error'', success := js ''old notice''\<rparr>))) = []
   \<and> success (fst (depositFunds (session ''abc'' ''100'')
        ((session ''abc'' ''100'')\<lparr>error := js ''old error'', success := js ''old notice''\<rparr>))) = []
   \<and> error (fst (fetchFunds (session ''abc'' ''100'')
        ((session ''abc'' ''100'')\<lparr>error := js ''old error'', success := js ''old notice''\<rparr>))) = []
   \<and> success (fst (fetchFunds (session ''abc'' ''100'')
        ((session ''abc'' ''100'')\<lparr>error := js ''old error'', success := js ''old notice''\<rparr>)))
      = js ''old notice''
   \<and> error (fst (depositFunds_resume (session ''abc'' ''100'')
        (Inr \<lparr>ok = False, status = 500, json = Inl NonError\<rparr>)
        ((session ''abc'' ''100'')\<lparr>error := js ''old error'', success := js ''old notice''\<rparr>)))
      = js ''Failed to deposit funds: HTTP error! status: 500''
   \<and> success (fst (depositFunds_resume (session ''abc'' ''100'')
        (Inr \<lparr>ok = False, status = 500, json = Inl NonError\<rparr>)
        ((session ''abc'' ''100'')\<lparr>error := js ''old error'', success := js ''old notice''\<rparr>)))
      = js ''old notice''"
proof -
  have token: "authToken (session ''abc'' ''100'') \<noteq> []"
    by (simp add: session_def js_def)
  have amt: "depositAmount (session ''abc'' ''100'') \<noteq> []
      \<and> \<not> le_zero (parseFloat (depositAmount (session ''abc'' ''100'')))"
    by (simp add: session_def parseFloat_100) (simp add: js_def)
  have failed: "settled (Inr \<lparr>ok = False, status = 500, json = Inl NonError\<rparr>
        :: thrown + DepositResponse Response)
      = Inl (Error (js ''HTTP error! status: 500''))"
    by (simp add: settled_def numberToString.simps js_def)
  from operation_messages
    [OF token,
     where s = "(session ''abc'' ''100'')\<lparr>error := js ''old error'', success := js ''old notice''\<rparr>"
       and q = "Inr \<lparr>ok = False, status = 500, json = Inl NonError\<rparr>"
       and err = "Error (js ''HTTP error! status: 500'')"]
    token amt failed
  show ?thesis by (simp add: errorMessage_def js_def)
qed

text \<open>
  The claim as the specification states it fails for Fetch: with the notice of an opened
  gateway on display and the token "abc", starting a Fetch leaves the notice in place.
\<close>

theorem operation_messages_counterexample:
  "authToken ((session ''abc'' [])\<lparr>success :=
       js ''Payment gateway opened in new tab. Complete your payment there.''\<rparr>) \<noteq> []
   \<and> snd (fetchFunds
        ((session ''abc'' [])\<lparr>success :=
           js ''Payment gateway opened in new tab. Complete your payment there.''\<rparr>)
        ((session ''abc'' [])\<lparr>success :=
           js ''Payment gateway opened in new tab. Complete your payment there.''\<rparr>))
      = [Fetch (BASE_URL @ js ''/funds'')
           \<lparr>method' = js ''GET'', headers = requestHeaders (js ''abc''), body = None\<rparr>]
   \<and> success (fst (fetchFunds
        ((session ''abc'' [])\<lparr>success :=
           js ''Payment gateway opened in new tab. Complete your payment there.''\<rparr>)
        ((session ''abc'' [])\<lparr>success :=
           js ''Payment gateway opened in new tab. Complete your payment there.''\<rparr>))) \<noteq> []"
  by (simp add: fetchFunds_def session_def initial_def js_def)

end
